theory Spec2Isabelle
  imports Complex_Main "HOL-Library.Log_Nat"
begin

section \<open>JavaScript values used by the three page scripts\<close>

text \<open>
  A JavaScript string is modelled as a \<^typ>\<open>string\<close>, one \<^typ>\<open>char\<close> per code unit in the
  range U+0000 to U+00FF. \<open>String.prototype.trim\<close> strips white space and line
  terminators from both ends; in that range these are TAB, LF, VT, FF, CR, SPACE
  and NO-BREAK SPACE.
\<close>

definition is_js_whitespace :: "char \<Rightarrow> bool" where
  "is_js_whitespace c =
     (c \<in> set [CHR 0x09, CHR 0x0A, CHR 0x0B, CHR 0x0C, CHR 0x0D, CHR 0x20, CHR 0xA0])"

definition trim :: "string \<Rightarrow> string" where
  "trim s = rev (dropWhile is_js_whitespace (rev (dropWhile is_js_whitespace s)))"

text \<open>
  A property of a parsed JSON object is missing (reads as \<open>undefined\<close>), \<open>null\<close>, or
  holds a value of the type the backend contract gives it.
\<close>

datatype 'a field = Absent | Null | Val 'a

text \<open>\<open>x || d\<close> for a string-valued property: \<open>undefined\<close>, \<open>null\<close> and \<open>""\<close> are falsy.\<close>

fun or_string :: "string field \<Rightarrow> string \<Rightarrow> string" where
  "or_string (Val s) d = (if s = [] then d else s)"
| "or_string _ d = d"

text \<open>A property interpolated into a template literal (\<open>ToString\<close>).\<close>

fun template_string :: "string field \<Rightarrow> string" where
  "template_string Absent = ''undefined''"
| "template_string Null = ''null''"
| "template_string (Val s) = s"

text \<open>Decimal digits of a natural number, as \<open>ToString\<close> prints an integer status code.\<close>

definition digit_char :: "nat \<Rightarrow> char" where
  "digit_char d = ''0123456789'' ! d"

fun show_nat :: "nat \<Rightarrow> string" where
  "show_nat n = (if n < 10 then [digit_char n] else show_nat (n div 10) @ [digit_char (n mod 10)])"

declare show_nat.simps [simp del]

subsection \<open>The outcome of one \<open>fetch\<close>\<close>

text \<open>
  \<open>await fetch(...)\<close> either rejects (transport failure) or resolves to a response
  with a status code; \<open>await response.json()\<close> then either rejects (the body is not
  JSON) or yields the parsed object. \<open>response.ok\<close> is true for the statuses 200 to 299.
\<close>

datatype 'p body = Unparsable | Json 'p

datatype 'p fetch_outcome = NetworkFailure | Response nat "'p body"

definition response_ok :: "nat \<Rightarrow> bool" where
  "response_ok st = (200 \<le> st \<and> st \<le> 299)"

datatype js_error =
    FetchRejected
  | JsonSyntaxError
  | Error string
  | TypeError

section \<open>The chat widget of \<open>frontend/assets/js/chat-agent.js\<close>\<close>

text \<open>
  The DOM nodes the script holds references to, as far as the script reads or writes
  them. A message in the chat window is a wrapper \<open>div\<close> with a class name and one
  paragraph, whose content is set through \<open>innerText\<close> or through \<open>innerHTML\<close>.
  The window, the form, the input and the button are taken to exist (the script
  returns at once when one of the first three is missing). \<open>event.preventDefault()\<close>,
  \<open>scrollToBottom()\<close> and \<open>chatInput.focus()\<close> change nothing that the script reads
  back and are left out.
\<close>

datatype node_content = InnerText string | InnerHTML string

record message_node =
  className :: string
  messageParagraph :: node_content

record chat_dom =
  dom_input_value :: string
  dom_input_disabled :: bool
  dom_button_disabled :: bool
  dom_button_innerText :: string
  dom_window :: "message_node list"

text \<open>The body of the JSON answer of the agent endpoint, success or failure.\<close>

record chat_payload =
  reply :: "string field"
  detail :: "string field"

text \<open>
  A request that has been issued and not yet resolved: what was sent, and the
  paragraph (\<open>assistantMessageElement\<close>, by its position in the window) that the
  suspended handler will fill in.
\<close>

record chat_request =
  request_url :: string
  request_message :: string
  assistantMessageElement :: nat

text \<open>
  The state of the page: the properties of the input and the button that the
  script sets, the chat window, the script's \<open>conversationHistory\<close> (role and
  content of each entry), the \<open>console.error\<close> calls made (label and error), the
  \<open>fetch\<close> calls that have not settled yet, and the number of \<open>fetch\<close> calls made.
\<close>

record chat_state =
  chatInput_value :: string
  chatInput_disabled :: bool
  chatSubmitButton_disabled :: bool
  chatSubmitButton_innerText :: string
  chatWindow :: "message_node list"
  conversationHistory :: "(string \<times> string) list"
  console :: "(string \<times> js_error) list"
  in_flight :: "chat_request list"
  fetch_count :: nat

definition AGENT_PROXY_ENDPOINT :: string where
  "AGENT_PROXY_ENDPOINT = ''https://my-unique-business-api.azurewebsites.net/api/chat-with-agent''"

definition greeting :: "string \<times> string" where
  "greeting = (''assistant'', ''Hello! How can I help you today?'')"

text \<open>The state when the \<open>DOMContentLoaded\<close> listener has run on a page \<open>d\<close>.\<close>

definition chat_init :: "chat_dom \<Rightarrow> chat_state" where
  "chat_init d =
     \<lparr>chatInput_value = dom_input_value d,
      chatInput_disabled = dom_input_disabled d,
      chatSubmitButton_disabled = dom_button_disabled d,
      chatSubmitButton_innerText = dom_button_innerText d,
      chatWindow = dom_window d,
      conversationHistory = [greeting],
      console = [],
      in_flight = [],
      fetch_count = 0\<rparr>"

definition addMessageToWindow :: "string \<Rightarrow> string \<Rightarrow> chat_state \<Rightarrow> nat \<times> chat_state" where
  "addMessageToWindow sender message s =
     (length (chatWindow s),
      s\<lparr>chatWindow := chatWindow s @
           [\<lparr>className = ''chat-message '' @ sender @ ''-message'',
             messageParagraph = InnerText message\<rparr>]\<rparr>)"

definition setFormDisabled :: "bool \<Rightarrow> chat_state \<Rightarrow> chat_state" where
  "setFormDisabled isDisabled s =
     s\<lparr>chatInput_disabled := isDisabled,
       chatSubmitButton_disabled := isDisabled,
       chatSubmitButton_innerText := (if isDisabled then ''Thinking...'' else ''Send'')\<rparr>"

text \<open>
  The submit listener up to its first \<open>await\<close>: the guard on the trimmed input, the
  two appends, the form lock, the placeholder, and the \<open>fetch\<close> call, which is
  recorded in \<open>in_flight\<close> and counted.
\<close>

definition chat_submit :: "chat_state \<Rightarrow> chat_state" where
  "chat_submit s =
     (let userMessage = trim (chatInput_value s) in
      if userMessage = [] then s
      else
        let s1 = snd (addMessageToWindow ''user'' userMessage s);
            s2 = s1\<lparr>conversationHistory := conversationHistory s1 @ [(''user'', userMessage)]\<rparr>;
            s3 = s2\<lparr>chatInput_value := []\<rparr>;
            s4 = setFormDisabled True s3;
            (el, s5) = addMessageToWindow ''assistant'' ''...'' s4
        in s5\<lparr>in_flight := in_flight s5 @
                  [\<lparr>request_url = AGENT_PROXY_ENDPOINT,
                    request_message = userMessage,
                    assistantMessageElement = el\<rparr>],
               fetch_count := Suc (fetch_count s5)\<rparr>)"

text \<open>
  The \<open>try\<close> block after the \<open>fetch\<close> has settled: the thrown error, or the value of
  \<open>data.reply\<close>.
\<close>

definition chat_try :: "chat_payload fetch_outcome \<Rightarrow> js_error + string field" where
  "chat_try outcome =
     (case outcome of
        NetworkFailure \<Rightarrow> Inl FetchRejected
      | Response st b \<Rightarrow>
          if \<not> response_ok st then
            (case b of
               Unparsable \<Rightarrow> Inl JsonSyntaxError
             | Json errorData \<Rightarrow>
                 Inl (Error (''API Error: '' @ show_nat st @ '' - '' @
                             or_string (detail errorData) ''Unknown error'')))
          else
            (case b of
               Unparsable \<Rightarrow> Inl JsonSyntaxError
             | Json data \<Rightarrow> Inr (reply data)))"

text \<open>
  Assigning to \<open>innerText\<close> converts the value to a string; the attribute maps \<open>null\<close>
  to the empty string.
\<close>

fun innerText_of :: "string field \<Rightarrow> string" where
  "innerText_of Absent = ''undefined''"
| "innerText_of Null = []"
| "innerText_of (Val s) = s"

definition chat_error_html :: string where
  "chat_error_html =
     ''<p style=\"color: #ff7b7b;\">Sorry, an error occurred. Please try again later.</p>''"

definition set_paragraph :: "nat \<Rightarrow> node_content \<Rightarrow> chat_state \<Rightarrow> chat_state" where
  "set_paragraph el c s =
     (if el < length (chatWindow s)
      then s\<lparr>chatWindow := (chatWindow s)[el := (chatWindow s ! el)\<lparr>messageParagraph := c\<rparr>]\<rparr>
      else s)"

text \<open>
  The rest of the listener, run when the request \<open>r\<close> settles with \<open>outcome\<close>:
  \<open>try\<close>, \<open>catch\<close>, \<open>finally\<close>.
\<close>

definition chat_settle :: "chat_request \<Rightarrow> chat_payload fetch_outcome \<Rightarrow> chat_state \<Rightarrow> chat_state" where
  "chat_settle r outcome s =
     (let s1 = (case chat_try outcome of
                  Inr fullReply \<Rightarrow>
                    set_paragraph (assistantMessageElement r) (InnerText (innerText_of fullReply)) s
                | Inl error \<Rightarrow>
                    set_paragraph (assistantMessageElement r) (InnerHTML chat_error_html)
                      (s\<lparr>console := console s @ [(''Failed to fetch from agent:'', error)]\<rparr>))
      in setFormDisabled False s1)"

text \<open>The \<open>i\<close>-th outstanding request settles; nothing happens when there is none.\<close>

definition chat_resolve :: "nat \<Rightarrow> chat_payload fetch_outcome \<Rightarrow> chat_state \<Rightarrow> chat_state" where
  "chat_resolve i outcome s =
     (if i < length (in_flight s)
      then chat_settle (in_flight s ! i) outcome
             (s\<lparr>in_flight := take i (in_flight s) @ drop (Suc i) (in_flight s)\<rparr>)
      else s)"

text \<open>
  What can happen on the page: the user edits the input (a disabled input cannot be
  edited), the form's submit event fires, or an outstanding request settles.
\<close>

datatype 'p page_event = Type string | Submit | Resolve nat "'p fetch_outcome"

fun chat_step :: "chat_state \<Rightarrow> chat_payload page_event \<Rightarrow> chat_state" where
  "chat_step s (Type txt) = (if chatInput_disabled s then s else s\<lparr>chatInput_value := txt\<rparr>)"
| "chat_step s Submit = chat_submit s"
| "chat_step s (Resolve i outcome) = chat_resolve i outcome s"

definition chat_run :: "chat_state \<Rightarrow> chat_payload page_event list \<Rightarrow> chat_state" where
  "chat_run = foldl chat_step"

section \<open>The chat page script \<open>frontend/script.js\<close>\<close>

text \<open>
  This script appends message \<open>div\<close>s and removes its loading indicator again, so a
  node carries an identity. It keeps no history and never disables the form.
\<close>

record script_node =
  node_id :: nat
  classList :: "string list"
  textContent :: string

record script_payload =
  script_reply :: "string field"

record script_request =
  script_url :: string
  script_message :: string
  loadingMessage :: nat

record script_state =
  messageInput_value :: string
  script_window :: "script_node list"
  next_node_id :: nat
  script_console :: "(string \<times> js_error) list"
  script_in_flight :: "script_request list"
  script_fetch_count :: nat

definition API_URL :: string where
  "API_URL = ''https://my-unique-business-api.azurewebsites.net/chat''"

definition script_init :: "string \<Rightarrow> (string list \<times> string) list \<Rightarrow> script_state" where
  "script_init v nodes =
     \<lparr>messageInput_value = v,
      script_window =
        map (\<lambda>(i, (cs, t)). \<lparr>node_id = i, classList = cs, textContent = t\<rparr>)
          (zip [0..<length nodes] nodes),
      next_node_id = length nodes,
      script_console = [],
      script_in_flight = [],
      script_fetch_count = 0\<rparr>"

definition addMessage :: "string \<Rightarrow> string \<Rightarrow> script_state \<Rightarrow> nat \<times> script_state" where
  "addMessage sender text s =
     (let cls = [''message''] @
                (if sender = ''user'' then [''user-message'']
                 else if sender = ''ai'' then [''ai-message'']
                 else if sender = ''loading'' then [''loading-message'']
                 else [])
      in (next_node_id s,
          s\<lparr>script_window := script_window s @
                [\<lparr>node_id = next_node_id s, classList = cls, textContent = text\<rparr>],
            next_node_id := Suc (next_node_id s)\<rparr>))"

definition remove_node :: "nat \<Rightarrow> script_state \<Rightarrow> script_state" where
  "remove_node n s = s\<lparr>script_window := filter (\<lambda>x. node_id x \<noteq> n) (script_window s)\<rparr>"

definition script_submit :: "script_state \<Rightarrow> script_state" where
  "script_submit s =
     (let userMessage = trim (messageInput_value s) in
      if userMessage = [] then s
      else
        let s1 = snd (addMessage ''user'' userMessage s);
            s2 = s1\<lparr>messageInput_value := []\<rparr>;
            (ld, s3) = addMessage ''loading'' ''...'' s2
        in s3\<lparr>script_in_flight := script_in_flight s3 @
                  [\<lparr>script_url = API_URL, script_message = userMessage, loadingMessage = ld\<rparr>],
               script_fetch_count := Suc (script_fetch_count s3)\<rparr>)"

definition script_try :: "script_payload fetch_outcome \<Rightarrow> js_error + string field" where
  "script_try outcome =
     (case outcome of
        NetworkFailure \<Rightarrow> Inl FetchRejected
      | Response st b \<Rightarrow>
          if \<not> response_ok st then Inl (Error (''HTTP error! status: '' @ show_nat st))
          else
            (case b of
               Unparsable \<Rightarrow> Inl JsonSyntaxError
             | Json data \<Rightarrow> Inr (script_reply data)))"

text \<open>Assigning to \<open>textContent\<close>: \<open>null\<close> and \<open>undefined\<close> both give the empty string.\<close>

fun textContent_of :: "string field \<Rightarrow> string" where
  "textContent_of (Val s) = s"
| "textContent_of _ = []"

definition script_settle :: "script_request \<Rightarrow> script_payload fetch_outcome \<Rightarrow> script_state \<Rightarrow> script_state" where
  "script_settle r outcome s =
     (case script_try outcome of
        Inr rep \<Rightarrow>
          snd (addMessage ''ai'' (textContent_of rep) (remove_node (loadingMessage r) s))
      | Inl error \<Rightarrow>
          snd (addMessage ''ai'' ''Sorry, I ran into an error. Please try again.''
                 (remove_node (loadingMessage r)
                    (s\<lparr>script_console := script_console s @ [(''Error fetching from API:'', error)]\<rparr>))))"

definition script_resolve :: "nat \<Rightarrow> script_payload fetch_outcome \<Rightarrow> script_state \<Rightarrow> script_state" where
  "script_resolve i outcome s =
     (if i < length (script_in_flight s)
      then script_settle (script_in_flight s ! i) outcome
             (s\<lparr>script_in_flight := take i (script_in_flight s) @ drop (Suc i) (script_in_flight s)\<rparr>)
      else s)"

fun script_step :: "script_state \<Rightarrow> script_payload page_event \<Rightarrow> script_state" where
  "script_step s (Type txt) = s\<lparr>messageInput_value := txt\<rparr>"
| "script_step s Submit = script_submit s"
| "script_step s (Resolve i outcome) = script_resolve i outcome s"

definition script_run :: "script_state \<Rightarrow> script_payload page_event list \<Rightarrow> script_state" where
  "script_run = foldl script_step"

section \<open>Numbers\<close>

text \<open>
  A JSON number arrives as an IEEE 754 double. A finite double is modelled by the
  rational number it denotes (the sign of zero is not observable in what follows);
  the sum of two finite doubles is their exact sum rounded to the nearest double,
  ties to even, and overflows to an infinity.
\<close>

datatype jsnum = Fin rat | PosInfinity | NegInfinity

definition pow2 :: "int \<Rightarrow> rat" where
  "pow2 e = (if 0 \<le> e then 2 ^ nat e else 1 / 2 ^ nat (- e))"

text \<open>For \<open>x \<noteq> 0\<close>, the exponent \<open>e\<close> with \<open>2 ^ e \<le> \<bar>x\<bar> < 2 ^ (e + 1)\<close>.\<close>

definition binary_exponent :: "rat \<Rightarrow> int" where
  "binary_exponent x =
     (let (p, q) = quotient_of \<bar>x\<bar>;
          e0 = bitlen p - bitlen q
      in if pow2 e0 \<le> \<bar>x\<bar> then e0 else e0 - 1)"

definition round_half_even :: "rat \<Rightarrow> int" where
  "round_half_even y =
     (let f = \<lfloor>y\<rfloor>; d = y - of_int f
      in if d < 1 / 2 then f
         else if 1 / 2 < d then f + 1
         else if even f then f else f + 1)"

text \<open>
  Rounding to binary64: 53 significant bits, so the spacing at exponent \<open>e\<close> is
  \<open>2 ^ (e - 52)\<close>; below exponent \<open>-1022\<close> the spacing stays \<open>2 ^ (-1074)\<close>; a result of
  magnitude \<open>2 ^ 1024\<close> or more is an infinity.
\<close>

definition round_double :: "rat \<Rightarrow> jsnum" where
  "round_double x =
     (if x = 0 then Fin 0
      else
        let e = max (binary_exponent x) (- 1022);
            ulp = pow2 (e - 52);
            r = of_int (round_half_even (x / ulp)) * ulp
        in if pow2 1024 \<le> \<bar>r\<bar> then (if 0 < x then PosInfinity else NegInfinity)
           else Fin r)"

definition js_add :: "rat \<Rightarrow> rat \<Rightarrow> jsnum" where
  "js_add a b = round_double (a + b)"

text \<open>\<open>x || 0\<close> for a number-valued property: \<open>undefined\<close>, \<open>null\<close> and \<open>0\<close> are falsy.\<close>

fun or_zero :: "rat field \<Rightarrow> rat" where
  "or_zero (Val x) = (if x = 0 then 0 else x)"
| "or_zero _ = 0"

subsection \<open>The host: locale and number printing\<close>

text \<open>
  What the page takes from the browser and not from this repository:
  \<open>new Date(s).toLocaleDateString()\<close> and \<open>new Date(s).toLocaleString()\<close>, which depend on
  the host locale and time zone, and \<open>Number::toString\<close> for the finite values that
  \<open>toFixed\<close> does not print in fixed notation.
\<close>

record host =
  toLocaleDateString :: "string \<Rightarrow> string"
  toLocaleString :: "string \<Rightarrow> string"
  numberToString :: "rat \<Rightarrow> string"

text \<open>
  \<open>Number.prototype.toFixed(2)\<close>: below \<open>10\<^sup>2\<^sup>1\<close> in magnitude, the integer \<open>n\<close> nearest to
  \<open>100 * \<bar>x\<bar>\<close> (the larger one on a tie), printed with a point before its last two
  digits and left-padded with zeros to three digits; a negative \<open>x\<close> gets a minus sign.
\<close>

definition fixed_digits :: "nat \<Rightarrow> string" where
  "fixed_digits n =
     (let m = show_nat n;
          m' = (if length m \<le> 2 then replicate (3 - length m) (CHR ''0'') @ m else m);
          k = length m'
      in take (k - 2) m' @ ''.'' @ drop (k - 2) m')"

definition toFixed2 :: "host \<Rightarrow> jsnum \<Rightarrow> string" where
  "toFixed2 h v =
     (case v of
        PosInfinity \<Rightarrow> ''Infinity''
      | NegInfinity \<Rightarrow> ''-Infinity''
      | Fin x \<Rightarrow>
          (if x < 0 then ''-'' else []) @
          (if 10 ^ 21 \<le> \<bar>x\<bar> then numberToString h \<bar>x\<bar>
           else fixed_digits (nat \<lfloor>\<bar>x\<bar> * 100 + 1 / 2\<rfloor>)))"

section \<open>The order-status page\<close>

text \<open>
  The JSON object the lookup endpoint answers with: the order record on success, an
  object with a \<open>detail\<close> on failure (\<open>lookup_detail\<close> is the property \<open>detail\<close>). Dates and
  the timestamp are strings, amounts are numbers, and every property may be missing
  or \<open>null\<close>. The form, the input and the results container are taken to exist.
\<close>

record order_payload =
  customerName :: "string field"
  orderDate :: "string field"
  readyDate :: "string field"
  calledDate :: "string field"
  pickupDate :: "string field"
  mountPrice :: "rat field"
  boardPrice :: "rat field"
  depositCash :: "rat field"
  depositCheck :: "rat field"
  paymentCash :: "rat field"
  paymentCheck :: "rat field"
  balance :: "rat field"
  lastUpdatedAt :: "string field"
  lookup_detail :: "string field"

text \<open>\<open>if (!dateTimeString) return 'N/A'\<close>: a missing, \<open>null\<close> or empty string is falsy.\<close>

fun formatDateTime :: "host \<Rightarrow> string field \<Rightarrow> string" where
  "formatDateTime h (Val dateTimeString) =
     (if dateTimeString = [] then ''N/A'' else toLocaleString h dateTimeString)"
| "formatDateTime h _ = ''N/A''"

text \<open>\<open>dateString.split('T')[0]\<close> is the text before the first \<open>T\<close>.\<close>

fun formatDate :: "host \<Rightarrow> string field \<Rightarrow> string" where
  "formatDate h (Val dateString) =
     (if dateString = [] then ''Pending''
      else toLocaleDateString h (takeWhile (\<lambda>c. c \<noteq> CHR ''T'') dateString))"
| "formatDate h _ = ''Pending''"

definition totalCost :: "order_payload \<Rightarrow> jsnum" where
  "totalCost data = js_add (or_zero (mountPrice data)) (or_zero (boardPrice data))"

definition totalDeposit :: "order_payload \<Rightarrow> jsnum" where
  "totalDeposit data = js_add (or_zero (depositCash data)) (or_zero (depositCheck data))"

definition subsequentPayments :: "order_payload \<Rightarrow> jsnum" where
  "subsequentPayments data = js_add (or_zero (paymentCash data)) (or_zero (paymentCheck data))"

text \<open>
  The values interpolated into the receipt template, in the order the template
  evaluates them. \<open>data.balance.toFixed(2)\<close> throws a \<open>TypeError\<close> when \<open>data.balance\<close> is
  \<open>undefined\<close> or \<open>null\<close>; no other interpolation can throw.
\<close>

record receipt =
  r_customerName :: string
  r_orderDate :: string
  r_readyDate :: string
  r_calledDate :: string
  r_pickupDate :: string
  r_mountPrice :: string
  r_boardPrice :: string
  r_totalCost :: string
  r_totalDeposit :: string
  r_subsequentPayments :: string
  r_balance :: string
  r_lastUpdated :: string

definition receipt_of :: "host \<Rightarrow> order_payload \<Rightarrow> js_error + receipt" where
  "receipt_of h data =
     (case balance data of
        Val b \<Rightarrow>
          Inr \<lparr>r_customerName = template_string (customerName data),
               r_orderDate = formatDate h (orderDate data),
               r_readyDate = formatDate h (readyDate data),
               r_calledDate = formatDate h (calledDate data),
               r_pickupDate = formatDate h (pickupDate data),
               r_mountPrice = toFixed2 h (Fin (or_zero (mountPrice data))),
               r_boardPrice = toFixed2 h (Fin (or_zero (boardPrice data))),
               r_totalCost = toFixed2 h (totalCost data),
               r_totalDeposit = toFixed2 h (totalDeposit data),
               r_subsequentPayments = toFixed2 h (subsequentPayments data),
               r_balance = toFixed2 h (Fin b),
               r_lastUpdated = formatDateTime h (lastUpdatedAt data)\<rparr>
      | _ \<Rightarrow> Inl TypeError)"

text \<open>The template literal, line by line, with its indentation and line breaks.\<close>

definition template_line :: "nat \<Rightarrow> string \<Rightarrow> string" where
  "template_line n s = replicate n (CHR '' '') @ s @ [CHR 0x0A]"

definition receipt_html :: "receipt \<Rightarrow> string" where
  "receipt_html sm =
      [CHR 0x0A] @
      template_line 24 ''<div class=\"status-receipt\">'' @
      template_line 28 ''<div class=\"receipt-header\">'' @
      template_line 32 (''<h3>Order Status for '' @ r_customerName sm @ ''</h3>'' @ replicate 32 (CHR '' '')) @
      template_line 32 (''<div class=\"receipt-line\"><span><strong>Order Date: </strong></span><span>'' @ r_orderDate sm @ ''</span></div>'') @
      template_line 32 (''<div class=\"receipt-line\"><span><strong>Ready for Pickup: </strong></span><span>'' @ r_readyDate sm @ ''</span></div>'') @
      template_line 32 (''<div class=\"receipt-line\"><span><strong>Customer Called: </strong></span><span>'' @ r_calledDate sm @ ''</span></div>'') @
      template_line 32 (''<div class=\"receipt-line\"><span><strong>Final Pickup: </strong></span><span>'' @ r_pickupDate sm @ ''</span></div>'') @
      template_line 28 ''</div>'' @
      template_line 0 [] @
      template_line 0 [] @
      template_line 28 ''<div class=\"receipt-section\">'' @
      template_line 32 ''<h4> </h4>'' @
      template_line 32 ''<h4>---------Financial Summary---------</h4>'' @
      template_line 32 (''<div class=\"receipt-line\"><span>Mount Price:</span><span> $'' @ r_mountPrice sm @ ''</span></div>'') @
      template_line 32 (''<div class=\"receipt-line\"><span>Board Price:</span><span> $'' @ r_boardPrice sm @ ''</span></div>'') @
      template_line 32 (''<div class=\"receipt-total\"><strong>Total Cost:</strong><strong> $'' @ r_totalCost sm @ ''</strong></div>'') @
      template_line 32 ''<br>'' @
      template_line 32 (''<div class=\"receipt-line\"><span>Initial Deposit:</span><span> - $'' @ r_totalDeposit sm @ ''</span></div>'') @
      template_line 32 (''<div class=\"receipt-line\"><span>Additional Payments:</span><span> - $'' @ r_subsequentPayments sm @ ''</span></div>'') @
      template_line 28 ''</div>'' @
      template_line 28 [] @
      template_line 28 ''<div class=\"receipt-balance\">'' @
      template_line 32 ''<h4> </h4>'' @
      template_line 32 ''<strong>Balance Due:</strong>'' @
      template_line 32 (''<strong>$'' @ r_balance sm @ ''</strong>'') @
      template_line 28 ''</div>'' @
      template_line 0 [] @
      template_line 28 ''<div class=\"receipt-footer\">'' @
      template_line 32 ''<h4>-----------------------------------------</h4>'' @
      template_line 32 ''<h4>Thank you for your business!</h4>'' @
      template_line 32 ''<h4>-----------------------------------------</h4>'' @
      template_line 32 (''<p>Last Updated: '' @ r_lastUpdated sm @ ''</p>'') @
      template_line 28 ''</div>'' @
      template_line 24 ''</div>'' @
      replicate 20 (CHR '' '')"

definition detail_html :: "string field \<Rightarrow> string" where
  "detail_html d = ''<p style=\"color: red;\">'' @ template_string d @ ''</p>''"

definition lookup_error_html :: string where
  "lookup_error_html =
     ''<p style=\"color: red;\">Could not connect to the server. Please try again later.</p>''"

subsection \<open>\<open>encodeURIComponent\<close>\<close>

text \<open>
  Letters, digits and \<open>- _ . ! ~ * ' ( )\<close> stay; every other character is written as
  its UTF-8 bytes, each as \<open>%\<close> and two upper-case hexadecimal digits.
\<close>

definition uri_unreserved :: "char \<Rightarrow> bool" where
  "uri_unreserved c =
     (c \<in> set (''ABCDEFGHIJKLMNOPQRSTUVWXYZabcdefghijklmnopqrstuvwxyz0123456789-_.!~*()'' @
               [CHR 0x27]))"

definition percent_byte :: "nat \<Rightarrow> string" where
  "percent_byte b = [CHR ''%'', ''0123456789ABCDEF'' ! (b div 16), ''0123456789ABCDEF'' ! (b mod 16)]"

definition encode_char :: "char \<Rightarrow> string" where
  "encode_char c =
     (let n = (of_char c :: nat) in
      if uri_unreserved c then [c]
      else if n < 128 then percent_byte n
      else percent_byte (192 + n div 64) @ percent_byte (128 + n mod 64))"

definition encodeURIComponent :: "string \<Rightarrow> string" where
  "encodeURIComponent s = concat (map encode_char s)"

subsection \<open>The submit listener of the order-status form\<close>

datatype lookup_log = Log string order_payload | LogError string js_error

record lookup_state =
  nameInput_value :: string
  resultsContainer_display :: string
  resultsContainer_innerHTML :: string
  lookup_console :: "lookup_log list"
  lookup_in_flight :: "string list"
  lookup_fetch_count :: nat

definition API_BASE_URL :: string where
  "API_BASE_URL = ''https://my-unique-business-api.azurewebsites.net/api/order-status/''"

definition lookup_init :: "string \<Rightarrow> string \<Rightarrow> string \<Rightarrow> lookup_state" where
  "lookup_init v disp html =
     \<lparr>nameInput_value = v,
      resultsContainer_display = disp,
      resultsContainer_innerHTML = html,
      lookup_console = [],
      lookup_in_flight = [],
      lookup_fetch_count = 0\<rparr>"

text \<open>Up to the \<open>await fetch(fullApiUrl)\<close>; an outstanding request is its URL.\<close>

definition lookup_submit :: "lookup_state \<Rightarrow> lookup_state" where
  "lookup_submit s =
     (let customerName = trim (nameInput_value s) in
      if customerName = [] then s
      else
        let encodedCustomerName = encodeURIComponent customerName;
            fullApiUrl = API_BASE_URL @ encodedCustomerName
        in s\<lparr>resultsContainer_display := ''block'',
             resultsContainer_innerHTML := ''<p>Searching...</p>'',
             lookup_in_flight := lookup_in_flight s @ [fullApiUrl],
             lookup_fetch_count := Suc (lookup_fetch_count s)\<rparr>)"

definition lookup_catch :: "js_error \<Rightarrow> lookup_state \<Rightarrow> lookup_state" where
  "lookup_catch error s =
     s\<lparr>lookup_console := lookup_console s @ [LogError ''Error fetching order status:'' error],
       resultsContainer_innerHTML := lookup_error_html\<rparr>"

text \<open>The \<open>try\<close> and \<open>catch\<close> blocks, run when the request settles with \<open>outcome\<close>.\<close>

definition lookup_settle :: "host \<Rightarrow> order_payload fetch_outcome \<Rightarrow> lookup_state \<Rightarrow> lookup_state" where
  "lookup_settle h outcome s =
     (case outcome of
        NetworkFailure \<Rightarrow> lookup_catch FetchRejected s
      | Response st b \<Rightarrow>
          (case b of
             Unparsable \<Rightarrow> lookup_catch JsonSyntaxError s
           | Json data \<Rightarrow>
               let s1 = s\<lparr>lookup_console := lookup_console s @ [Log ''API Response Data:'' data]\<rparr>
               in if \<not> response_ok st
                  then s1\<lparr>resultsContainer_innerHTML := detail_html (lookup_detail data)\<rparr>
                  else
                    (case receipt_of h data of
                       Inl error \<Rightarrow> lookup_catch error s1
                     | Inr sm \<Rightarrow> s1\<lparr>resultsContainer_innerHTML := receipt_html sm\<rparr>)))"

definition lookup_resolve :: "host \<Rightarrow> nat \<Rightarrow> order_payload fetch_outcome \<Rightarrow> lookup_state \<Rightarrow> lookup_state" where
  "lookup_resolve h i outcome s =
     (if i < length (lookup_in_flight s)
      then lookup_settle h outcome
             (s\<lparr>lookup_in_flight := take i (lookup_in_flight s) @ drop (Suc i) (lookup_in_flight s)\<rparr>)
      else s)"

fun lookup_step :: "host \<Rightarrow> lookup_state \<Rightarrow> order_payload page_event \<Rightarrow> lookup_state" where
  "lookup_step h s (Type txt) = s\<lparr>nameInput_value := txt\<rparr>"
| "lookup_step h s Submit = lookup_submit s"
| "lookup_step h s (Resolve i outcome) = lookup_resolve h i outcome s"

definition lookup_run :: "host \<Rightarrow> lookup_state \<Rightarrow> order_payload page_event list \<Rightarrow> lookup_state" where
  "lookup_run h = foldl (lookup_step h)"

section \<open>Invariants and specification-level notions\<close>

text \<open>
  The form lock of \<open>chat-agent.js\<close>: whenever a request is outstanding it is the only
  one, and the input is disabled and empty.
\<close>

definition form_locked :: "chat_state \<Rightarrow> bool" where
  "form_locked s =
     (in_flight s = [] \<or> (length (in_flight s) = 1 \<and> chatInput_disabled s \<and> chatInput_value s = []))"

text \<open>Events other than the settling of a request: edits and submits.\<close>

fun is_resolve :: "'p page_event \<Rightarrow> bool" where
  "is_resolve (Resolve i outcome) = True"
| "is_resolve _ = False"

text \<open>Every suspended handler holds a paragraph that is in the chat window.\<close>

definition targets_in_window :: "chat_state \<Rightarrow> bool" where
  "targets_in_window s = list_all (\<lambda>r. assistantMessageElement r < length (chatWindow s)) (in_flight s)"

text \<open>A page as the markup delivers it: empty enabled input, empty chat window.\<close>

definition sample_dom :: chat_dom where
  "sample_dom =
     \<lparr>dom_input_value = [], dom_input_disabled = False, dom_button_disabled = False,
      dom_button_innerText = ''Send'', dom_window = []\<rparr>"

text \<open>A payload of the lookup endpoint with no property set.\<close>

definition empty_payload :: order_payload where
  "empty_payload =
     \<lparr>customerName = Absent, orderDate = Absent, readyDate = Absent, calledDate = Absent,
      pickupDate = Absent, mountPrice = Absent, boardPrice = Absent, depositCash = Absent,
      depositCheck = Absent, paymentCash = Absent, paymentCheck = Absent, balance = Absent,
      lastUpdatedAt = Absent, lookup_detail = Absent\<rparr>"

text \<open>A host that prints dates and large numbers in a recognisable, fixed way.\<close>

definition sample_host :: host where
  "sample_host =
     \<lparr>toLocaleDateString = (\<lambda>s. ''date '' @ s),
      toLocaleString = (\<lambda>s. ''time '' @ s),
      numberToString = (\<lambda>x. ''1e+21'')\<rparr>"







text \<open>An order with one date set, no amounts, and a balance of 12.5.\<close>

definition sample_order :: order_payload where
  "sample_order =
     empty_payload\<lparr>customerName := Val ''Ann Lee'', orderDate := Val ''2024-03-05T00:00:00'',
       calledDate := Null, balance := Val (25 / 2)\<rparr>"

section \<open>Verified properties\<close>

subsection \<open>The chat widget: what one listener run changes\<close>

lemma trim_Nil [simp]: "trim [] = []"
  by (simp add: trim_def)

lemma chat_submit_empty: "trim (chatInput_value s) = [] \<Longrightarrow> chat_submit s = s"
  by (simp add: chat_submit_def)

lemma chat_submit_nonempty:
  assumes "trim (chatInput_value s) \<noteq> []"
  shows "chat_submit s =
     s\<lparr>chatInput_value := [],
       chatInput_disabled := True,
       chatSubmitButton_disabled := True,
       chatSubmitButton_innerText := ''Thinking...'',
       chatWindow := chatWindow s @
         [\<lparr>className = ''chat-message user-message'', messageParagraph = InnerText (trim (chatInput_value s))\<rparr>,
          \<lparr>className = ''chat-message assistant-message'', messageParagraph = InnerText ''...''\<rparr>],
       conversationHistory := conversationHistory s @ [(''user'', trim (chatInput_value s))],
       in_flight := in_flight s @
         [\<lparr>request_url = AGENT_PROXY_ENDPOINT, request_message = trim (chatInput_value s),
           assistantMessageElement = Suc (length (chatWindow s))\<rparr>],
       fetch_count := Suc (fetch_count s)\<rparr>"
  using assms
  by (simp add: chat_submit_def addMessageToWindow_def setFormDisabled_def Let_def)

lemma set_paragraph_fields [simp]:
  "chatInput_value (set_paragraph el c s) = chatInput_value s"
  "chatInput_disabled (set_paragraph el c s) = chatInput_disabled s"
  "chatSubmitButton_disabled (set_paragraph el c s) = chatSubmitButton_disabled s"
  "conversationHistory (set_paragraph el c s) = conversationHistory s"
  "in_flight (set_paragraph el c s) = in_flight s"
  "fetch_count (set_paragraph el c s) = fetch_count s"
  "console (set_paragraph el c s) = console s"
  "length (chatWindow (set_paragraph el c s)) = length (chatWindow s)"
  by (simp_all add: set_paragraph_def)

lemma chat_settle_fields [simp]:
  "chatInput_value (chat_settle r outcome s) = chatInput_value s"
  "chatInput_disabled (chat_settle r outcome s) = False"
  "chatSubmitButton_disabled (chat_settle r outcome s) = False"
  "conversationHistory (chat_settle r outcome s) = conversationHistory s"
  "in_flight (chat_settle r outcome s) = in_flight s"
  "fetch_count (chat_settle r outcome s) = fetch_count s"
  "length (chatWindow (chat_settle r outcome s)) = length (chatWindow s)"
  by (simp_all add: chat_settle_def setFormDisabled_def Let_def split: sum.splits)

lemma chat_resolve_history [simp]:
  "conversationHistory (chat_resolve i outcome s) = conversationHistory s"
  by (simp add: chat_resolve_def)

lemma chat_resolve_fetch_count [simp]:
  "fetch_count (chat_resolve i outcome s) = fetch_count s"
  by (simp add: chat_resolve_def)

lemma chat_resolve_value [simp]:
  "chatInput_value (chat_resolve i outcome s) = chatInput_value s"
  by (simp add: chat_resolve_def)

lemma chat_resolve_in_flight:
  "in_flight (chat_resolve i outcome s) =
     (if i < length (in_flight s) then take i (in_flight s) @ drop (Suc i) (in_flight s) else in_flight s)"
  by (simp add: chat_resolve_def)

lemma chat_resolve_enabled:
  "i < length (in_flight s) \<Longrightarrow>
     \<not> chatInput_disabled (chat_resolve i outcome s) \<and> \<not> chatSubmitButton_disabled (chat_resolve i outcome s)"
  by (simp add: chat_resolve_def)

lemma form_locked_step: "form_locked s \<Longrightarrow> form_locked (chat_step s e)"
proof (cases e)
  case (Type v)
  assume "form_locked s"
  with Type show ?thesis by (auto simp: form_locked_def)
next
  case Submit
  assume L: "form_locked s"
  show ?thesis
  proof (cases "trim (chatInput_value s) = []")
    case True
    with L Submit show ?thesis by (simp add: chat_submit_empty)
  next
    case False
    with L have "in_flight s = []" by (auto simp: form_locked_def)
    with False Submit show ?thesis by (simp add: chat_submit_nonempty form_locked_def)
  qed
next
  case (Resolve i outcome)
  assume L: "form_locked s"
  show ?thesis
  proof (cases "i < length (in_flight s)")
    case True
    with L have "length (in_flight s) = 1" "i = 0" by (auto simp: form_locked_def)
    with Resolve show ?thesis by (simp add: form_locked_def chat_resolve_in_flight)
  next
    case False
    with L Resolve show ?thesis by (simp add: chat_resolve_def)
  qed
qed

lemma form_locked_run: "form_locked s \<Longrightarrow> form_locked (chat_run s evs)"
  unfolding chat_run_def
  by (induction evs arbitrary: s) (simp_all add: form_locked_step)

lemma form_locked_init: "form_locked (chat_init d)"
  by (simp add: form_locked_def chat_init_def)

subsection \<open>One request at a time\<close>

lemma chat_try_fails_iff:
  "isl (chat_try outcome) \<longleftrightarrow>
     outcome = NetworkFailure \<or>
     (\<exists>st b. outcome = Response st b \<and> (\<not> response_ok st \<or> b = Unparsable))"
  by (auto simp: chat_try_def split: fetch_outcome.splits body.splits)

lemma locked_step_idle:
  "chatInput_disabled s \<Longrightarrow> chatInput_value s = [] \<Longrightarrow> \<not> is_resolve e \<Longrightarrow> chat_step s e = s"
  by (cases e) (simp_all add: chat_submit_empty)

lemma locked_run_idle:
  "chatInput_disabled s \<Longrightarrow> chatInput_value s = [] \<Longrightarrow> list_all (\<lambda>e. \<not> is_resolve e) evs \<Longrightarrow>
     chat_run s evs = s"
  unfolding chat_run_def
  by (induction evs) (simp_all add: locked_step_idle)

lemma form_locked_submit_rejected:
  "form_locked s \<Longrightarrow> in_flight s \<noteq> [] \<Longrightarrow> chat_step s Submit = s"
  by (simp add: form_locked_def chat_submit_empty)

lemma chat_run_snoc: "chat_run s (evs @ [e]) = chat_step (chat_run s evs) e"
  by (simp add: chat_run_def)

lemma script_submit_nonempty:
  "trim (messageInput_value t) \<noteq> [] \<Longrightarrow>
     script_fetch_count (script_submit t) = Suc (script_fetch_count t) \<and>
     length (script_in_flight (script_submit t)) = Suc (length (script_in_flight t))"
  by (simp add: script_submit_def addMessage_def Let_def)

text \<open>
  Claim C1, amended. For the controller of \<open>chat-agent.js\<close>: from the loaded page,
  after any sequence of edits, submits and settled requests, at most one request is
  outstanding; while one is outstanding a further submit event changes nothing, so
  it issues no call; and after a submit that issued a call, any number of further
  submits and edits before the request settles leaves the number of issued calls one
  above what it was. The script \<open>script.js\<close> has no lock: in every state, whatever is
  outstanding, a submit of non-blank text issues one more call.
\<close>

theorem chat_agent_one_request_in_flight:
  "length (in_flight (chat_run (chat_init d) evs)) \<le> 1 \<and>
   (in_flight (chat_run (chat_init d) evs) \<noteq> [] \<longrightarrow>
      chat_step (chat_run (chat_init d) evs) Submit = chat_run (chat_init d) evs) \<and>
   (trim (chatInput_value s) \<noteq> [] \<and> list_all (\<lambda>e. \<not> is_resolve e) further \<longrightarrow>
      fetch_count (chat_run (chat_submit s) further) = Suc (fetch_count s)) \<and>
   (trim (messageInput_value t) \<noteq> [] \<longrightarrow>
      script_fetch_count (script_submit t) = Suc (script_fetch_count t) \<and>
      length (script_in_flight (script_submit t)) = Suc (length (script_in_flight t)))"
proof -
  have L: "form_locked (chat_run (chat_init d) evs)"
    by (rule form_locked_run [OF form_locked_init])
  then have one: "length (in_flight (chat_run (chat_init d) evs)) \<le> 1"
    by (auto simp: form_locked_def)
  have rej: "in_flight (chat_run (chat_init d) evs) \<noteq> [] \<longrightarrow>
      chat_step (chat_run (chat_init d) evs) Submit = chat_run (chat_init d) evs"
    using form_locked_submit_rejected [OF L] by blast
  have cnt: "trim (chatInput_value s) \<noteq> [] \<and> list_all (\<lambda>e. \<not> is_resolve e) further \<longrightarrow>
      fetch_count (chat_run (chat_submit s) further) = Suc (fetch_count s)"
  proof
    assume A: "trim (chatInput_value s) \<noteq> [] \<and> list_all (\<lambda>e. \<not> is_resolve e) further"
    then have "chatInput_disabled (chat_submit s)" "chatInput_value (chat_submit s) = []"
      by (simp_all add: chat_submit_nonempty)
    with A have "chat_run (chat_submit s) further = chat_submit s"
      by (simp add: locked_run_idle)
    with A show "fetch_count (chat_run (chat_submit s) further) = Suc (fetch_count s)"
      by (simp add: chat_submit_nonempty)
  qed
  from one rej cnt script_submit_nonempty [of t] show ?thesis by blast
qed

lemma trim_hi: "trim ''hi'' = ''hi''"
  by (simp add: trim_def is_js_whitespace_def)

lemma sample_run:
  "chat_run (chat_init sample_dom) [Type ''hi'', Submit] =
     chat_submit ((chat_init sample_dom)\<lparr>chatInput_value := ''hi''\<rparr>)"
  by (simp add: chat_run_def chat_init_def sample_dom_def)

theorem chat_agent_one_request_in_flight_witness:
  "in_flight (chat_run (chat_init sample_dom) [Type ''hi'', Submit]) \<noteq> [] \<and>
   chat_step (chat_run (chat_init sample_dom) [Type ''hi'', Submit]) Submit =
     chat_run (chat_init sample_dom) [Type ''hi'', Submit] \<and>
   trim (chatInput_value ((chat_init sample_dom)\<lparr>chatInput_value := ''hi''\<rparr>)) \<noteq> [] \<and>
   list_all (\<lambda>e. \<not> is_resolve e) [Submit, Type ''again'', Submit :: chat_payload page_event] \<and>
   fetch_count (chat_run (chat_submit ((chat_init sample_dom)\<lparr>chatInput_value := ''hi''\<rparr>))
      [Submit, Type ''again'', Submit]) = Suc 0 \<and>
   trim (messageInput_value (script_init ''hi'' [])) \<noteq> [] \<and>
   script_fetch_count (script_submit (script_init ''hi'' [])) = Suc 0"
  using chat_agent_one_request_in_flight
    [of sample_dom "[Type ''hi'', Submit]" "(chat_init sample_dom)\<lparr>chatInput_value := ''hi''\<rparr>"
        "[Submit, Type ''again'', Submit]" "script_init ''hi'' []"]
  by (simp add: sample_run chat_submit_nonempty trim_hi)
     (simp add: chat_init_def script_init_def trim_hi)

text \<open>
  Claim C1 as stated covers every controller. The page script \<open>script.js\<close> never
  disables its form: typing and submitting twice in a row leaves two requests
  outstanding and two calls issued.
\<close>

theorem script_js_two_requests_in_flight:
  "length (script_in_flight (script_run (script_init [] []) [Type ''a'', Submit, Type ''b'', Submit])) = 2 \<and>
   script_fetch_count (script_run (script_init [] []) [Type ''a'', Submit, Type ''b'', Submit]) = 2"
  by (simp add: script_run_def script_init_def script_submit_def addMessage_def trim_def
      is_js_whitespace_def Let_def)

subsection \<open>Blank input\<close>

lemma trim_empty_iff: "trim s = [] \<longleftrightarrow> list_all is_js_whitespace s"
proof -
  have "trim s = [] \<longleftrightarrow> (\<forall>c \<in> set (dropWhile is_js_whitespace s). is_js_whitespace c)"
    by (simp add: trim_def)
  also have "\<dots> \<longleftrightarrow> dropWhile is_js_whitespace s = []"
  proof
    assume A: "\<forall>c \<in> set (dropWhile is_js_whitespace s). is_js_whitespace c"
    show "dropWhile is_js_whitespace s = []"
    proof (rule ccontr)
      assume N: "dropWhile is_js_whitespace s \<noteq> []"
      then have "\<not> is_js_whitespace (hd (dropWhile is_js_whitespace s))"
        by (rule hd_dropWhile)
      moreover from N have "hd (dropWhile is_js_whitespace s) \<in> set (dropWhile is_js_whitespace s)"
        by simp
      ultimately show False using A by blast
    qed
  next
    assume "dropWhile is_js_whitespace s = []"
    then show "\<forall>c \<in> set (dropWhile is_js_whitespace s). is_js_whitespace c"
      by (simp only: list.set ball_empty)
  qed
  also have "\<dots> \<longleftrightarrow> list_all is_js_whitespace s"
    by (simp add: list_all_iff)
  finally show ?thesis .
qed


lemma lookup_submit_nonempty:
  "trim (nameInput_value u) \<noteq> [] \<Longrightarrow>
     lookup_submit u =
       u\<lparr>resultsContainer_display := ''block'',
         resultsContainer_innerHTML := ''<p>Searching...</p>'',
         lookup_in_flight := lookup_in_flight u @
           [API_BASE_URL @ encodeURIComponent (trim (nameInput_value u))],
         lookup_fetch_count := Suc (lookup_fetch_count u)\<rparr>"
  by (simp add: lookup_submit_def Let_def)



subsection \<open>The conversation history\<close>

lemma targets_in_window_step: "targets_in_window s \<Longrightarrow> targets_in_window (chat_step s e)"
proof (cases e)
  case (Type v)
  assume "targets_in_window s"
  with Type show ?thesis by (simp add: targets_in_window_def)
next
  case Submit
  assume T: "targets_in_window s"
  show ?thesis
  proof (cases "trim (chatInput_value s) = []")
    case True
    with T Submit show ?thesis by (simp add: chat_submit_empty)
  next
    case False
    with T Submit show ?thesis
      by (auto simp: chat_submit_nonempty targets_in_window_def list_all_iff)
  qed
next
  case (Resolve i outcome)
  assume T: "targets_in_window s"
  show ?thesis
  proof (cases "i < length (in_flight s)")
    case True
    with T Resolve show ?thesis
      by (auto simp: chat_resolve_def targets_in_window_def list_all_iff
          dest: in_set_takeD in_set_dropD)
  next
    case False
    with T Resolve show ?thesis by (simp add: chat_resolve_def)
  qed
qed

lemma targets_in_window_run: "targets_in_window s \<Longrightarrow> targets_in_window (chat_run s evs)"
  unfolding chat_run_def
  by (induction evs arbitrary: s) (simp_all add: targets_in_window_step)

lemma targets_in_window_init: "targets_in_window (chat_init d)"
  by (simp add: targets_in_window_def chat_init_def)

lemma chat_step_history:
  "conversationHistory (chat_step s e) = conversationHistory s \<or>
   (\<exists>m. conversationHistory (chat_step s e) = conversationHistory s @ [(''user'', m)])"
proof (cases e)
  case (Type v)
  then show ?thesis by simp
next
  case Submit
  then show ?thesis
    by (cases "trim (chatInput_value s) = []") (simp_all add: chat_submit_empty chat_submit_nonempty)
next
  case (Resolve i outcome)
  then show ?thesis by simp
qed

lemma chat_run_history:
  "\<exists>us. conversationHistory (chat_run s evs) = conversationHistory s @ us \<and>
        list_all (\<lambda>m. fst m = ''user'') us"
proof (induction evs rule: rev_induct)
  case Nil
  show ?case by (simp add: chat_run_def)
next
  case (snoc e evs)
  then obtain us where us: "conversationHistory (chat_run s evs) = conversationHistory s @ us"
      "list_all (\<lambda>m. fst m = ''user'') us"
    by blast
  from chat_step_history [of "chat_run s evs" e] show ?case
  proof
    assume "conversationHistory (chat_step (chat_run s evs) e) = conversationHistory (chat_run s evs)"
    with us show ?thesis by (simp add: chat_run_snoc)
  next
    assume "\<exists>m. conversationHistory (chat_step (chat_run s evs) e) =
                 conversationHistory (chat_run s evs) @ [(''user'', m)]"
    then obtain m where "conversationHistory (chat_step (chat_run s evs) e) =
                 conversationHistory s @ (us @ [(''user'', m)])"
      using us by auto
    moreover have "list_all (\<lambda>m. fst m = ''user'') (us @ [(''user'', m)])"
      using us by simp
    ultimately show ?thesis unfolding chat_run_snoc by blast
  qed
qed

text \<open>
  Claim C9. A submit of non-blank text appends the user's message to the history;
  when the request then fails (the \<open>try\<close> block throws: transport failure, HTTP error
  status, or a body that is not JSON, see \<open>chat_try_fails_iff\<close>), the history still ends
  with that message: the \<open>catch\<close> branch does not undo the append. Nothing that
  happens on the page afterwards removes it either.
\<close>

theorem failed_request_keeps_user_message:
  "trim (chatInput_value s) \<noteq> [] \<Longrightarrow> isl (chat_try outcome) \<Longrightarrow>
     conversationHistory (chat_resolve (length (in_flight s)) outcome (chat_submit s)) =
       conversationHistory s @ [(''user'', trim (chatInput_value s))] \<and>
     (\<exists>us. conversationHistory
             (chat_run (chat_resolve (length (in_flight s)) outcome (chat_submit s)) evs) =
           conversationHistory s @ (''user'', trim (chatInput_value s)) # us)"
proof -
  assume ne: "trim (chatInput_value s) \<noteq> []"
  let ?s' = "chat_resolve (length (in_flight s)) outcome (chat_submit s)"
  have kept: "conversationHistory ?s' = conversationHistory s @ [(''user'', trim (chatInput_value s))]"
    using ne by (simp add: chat_submit_nonempty)
  obtain us where "conversationHistory (chat_run ?s' evs) = conversationHistory ?s' @ us"
    using chat_run_history [of ?s' evs] by blast
  with kept have "conversationHistory (chat_run ?s' evs) =
      conversationHistory s @ (''user'', trim (chatInput_value s)) # us"
    by simp
  with kept show ?thesis by blast
qed

theorem failed_request_keeps_user_message_witness:
  "trim (chatInput_value ((chat_init sample_dom)\<lparr>chatInput_value := ''hi''\<rparr>)) \<noteq> [] \<and>
   isl (chat_try (Response 500 (Json \<lparr>reply = Absent, detail = Val ''down''\<rparr>))) \<and>
   conversationHistory
     (chat_resolve 0 (Response 500 (Json \<lparr>reply = Absent, detail = Val ''down''\<rparr>))
        (chat_submit ((chat_init sample_dom)\<lparr>chatInput_value := ''hi''\<rparr>))) =
     [(''assistant'', ''Hello! How can I help you today?''), (''user'', ''hi'')]"
  using failed_request_keeps_user_message
    [of "(chat_init sample_dom)\<lparr>chatInput_value := ''hi''\<rparr>"
        "Response 500 (Json \<lparr>reply = Absent, detail = Val ''down''\<rparr>)"]
  by (simp add: trim_hi chat_try_def response_ok_def) (simp add: chat_init_def greeting_def)

lemma chat_settle_reply_rendered:
  assumes "chat_try outcome = Inr rep" and "assistantMessageElement r < length (chatWindow s)"
  shows "messageParagraph (chatWindow (chat_settle r outcome s) ! assistantMessageElement r) =
           InnerText (innerText_of rep)"
  using assms
  by (simp add: chat_settle_def set_paragraph_def setFormDisabled_def)

text \<open>
  Claim C10. The history starts as the single assistant greeting. Every step of the
  page leaves it unchanged or appends one entry with role \<open>user\<close>, so in every state
  reachable from the loaded page it is the greeting followed by \<open>user\<close> entries only.
  In particular a successful reply is written into the placeholder paragraph of the
  chat window, and the history is left as it was.
\<close>

theorem history_is_greeting_then_user_messages:
  "conversationHistory (chat_init d) = [(''assistant'', ''Hello! How can I help you today?'')] \<and>
   (conversationHistory (chat_step s e) = conversationHistory s \<or>
    (\<exists>m. conversationHistory (chat_step s e) = conversationHistory s @ [(''user'', m)])) \<and>
   (\<exists>us. conversationHistory (chat_run (chat_init d) evs) =
            (''assistant'', ''Hello! How can I help you today?'') # us \<and>
          list_all (\<lambda>m. fst m = ''user'') us) \<and>
   (i < length (in_flight (chat_run (chat_init d) evs)) \<and> chat_try outcome = Inr rep \<longrightarrow>
      conversationHistory (chat_resolve i outcome (chat_run (chat_init d) evs)) =
        conversationHistory (chat_run (chat_init d) evs) \<and>
      messageParagraph
        (chatWindow (chat_resolve i outcome (chat_run (chat_init d) evs)) !
           assistantMessageElement (in_flight (chat_run (chat_init d) evs) ! i)) =
        InnerText (innerText_of rep))"
proof -
  let ?s = "chat_run (chat_init d) evs"
  have init: "conversationHistory (chat_init d) = [(''assistant'', ''Hello! How can I help you today?'')]"
    by (simp add: chat_init_def greeting_def)
  have reach: "\<exists>us. conversationHistory ?s = (''assistant'', ''Hello! How can I help you today?'') # us \<and>
          list_all (\<lambda>m. fst m = ''user'') us"
    using chat_run_history [of "chat_init d" evs] init by simp
  have ok: "i < length (in_flight ?s) \<and> chat_try outcome = Inr rep \<longrightarrow>
      conversationHistory (chat_resolve i outcome ?s) = conversationHistory ?s \<and>
      messageParagraph (chatWindow (chat_resolve i outcome ?s) !
           assistantMessageElement (in_flight ?s ! i)) = InnerText (innerText_of rep)"
  proof
    assume A: "i < length (in_flight ?s) \<and> chat_try outcome = Inr rep"
    have "targets_in_window ?s"
      by (rule targets_in_window_run [OF targets_in_window_init])
    with A have "assistantMessageElement (in_flight ?s ! i) < length (chatWindow ?s)"
      by (simp add: targets_in_window_def list_all_length)
    with A show "conversationHistory (chat_resolve i outcome ?s) = conversationHistory ?s \<and>
      messageParagraph (chatWindow (chat_resolve i outcome ?s) !
           assistantMessageElement (in_flight ?s ! i)) = InnerText (innerText_of rep)"
      by (simp add: chat_resolve_def chat_settle_reply_rendered)
  qed
  from init chat_step_history [of s e] reach ok show ?thesis by blast
qed

theorem history_is_greeting_then_user_messages_witness:
  "0 < length (in_flight (chat_run (chat_init sample_dom) [Type ''hi'', Submit])) \<and>
   chat_try (Response 200 (Json \<lparr>reply = Val ''Hello'', detail = Absent\<rparr>)) = Inr (Val ''Hello'') \<and>
   conversationHistory
     (chat_resolve 0 (Response 200 (Json \<lparr>reply = Val ''Hello'', detail = Absent\<rparr>))
        (chat_run (chat_init sample_dom) [Type ''hi'', Submit])) =
     [(''assistant'', ''Hello! How can I help you today?''), (''user'', ''hi'')] \<and>
   messageParagraph
     (chatWindow
        (chat_resolve 0 (Response 200 (Json \<lparr>reply = Val ''Hello'', detail = Absent\<rparr>))
           (chat_run (chat_init sample_dom) [Type ''hi'', Submit])) ! 1) =
     InnerText ''Hello''"
  using history_is_greeting_then_user_messages
    [of sample_dom _ _ "[Type ''hi'', Submit]" 0
        "Response 200 (Json \<lparr>reply = Val ''Hello'', detail = Absent\<rparr>)" "Val ''Hello''"]
  by (simp add: sample_run chat_submit_nonempty trim_hi chat_try_def response_ok_def)
     (simp add: chat_init_def greeting_def sample_dom_def)

subsection \<open>Ready again after every outcome\<close>

lemma lookup_settle_fields [simp]:
  "nameInput_value (lookup_settle h outcome u) = nameInput_value u"
  "lookup_in_flight (lookup_settle h outcome u) = lookup_in_flight u"
  "lookup_fetch_count (lookup_settle h outcome u) = lookup_fetch_count u"
  "resultsContainer_display (lookup_settle h outcome u) = resultsContainer_display u"
  by (simp_all add: lookup_settle_def lookup_catch_def Let_def
      split: fetch_outcome.splits body.splits sum.splits)

lemma lookup_resolve_fetch_count [simp]:
  "lookup_fetch_count (lookup_resolve h j outcome u) = lookup_fetch_count u"
  by (simp add: lookup_resolve_def)

text \<open>
  Claim C7. When an outstanding request of the chat widget settles, whatever the
  outcome (transport failure, error status, malformed body, or a reply), the input
  and the button are enabled again, and typing non-blank text and submitting issues
  a new call at once; from the loaded page the settled request was the only one, so
  none is outstanding any more. The order-status form is never disabled: after a
  request settles, whatever the outcome (a missing balance included), typing a
  non-blank name and submitting issues a new call.
\<close>

theorem every_outcome_leaves_component_ready:
  "(i < length (in_flight s) \<longrightarrow>
      \<not> chatInput_disabled (chat_resolve i outcome s) \<and>
      \<not> chatSubmitButton_disabled (chat_resolve i outcome s) \<and>
      (\<not> list_all is_js_whitespace v \<longrightarrow>
         fetch_count (chat_run (chat_resolve i outcome s) [Type v, Submit]) =
           Suc (fetch_count (chat_resolve i outcome s)))) \<and>
   (in_flight (chat_run (chat_init d) evs) \<noteq> [] \<longrightarrow>
      in_flight (chat_resolve 0 outcome (chat_run (chat_init d) evs)) = []) \<and>
   (\<not> list_all is_js_whitespace v \<longrightarrow>
      lookup_fetch_count (lookup_run h (lookup_resolve h j result u) [Type v, Submit]) =
        Suc (lookup_fetch_count (lookup_resolve h j result u)))"
proof -
  have chat: "i < length (in_flight s) \<longrightarrow>
      \<not> chatInput_disabled (chat_resolve i outcome s) \<and>
      \<not> chatSubmitButton_disabled (chat_resolve i outcome s) \<and>
      (\<not> list_all is_js_whitespace v \<longrightarrow>
         fetch_count (chat_run (chat_resolve i outcome s) [Type v, Submit]) =
           Suc (fetch_count (chat_resolve i outcome s)))"
  proof
    assume A: "i < length (in_flight s)"
    then have en: "\<not> chatInput_disabled (chat_resolve i outcome s)"
        "\<not> chatSubmitButton_disabled (chat_resolve i outcome s)"
      using chat_resolve_enabled [of i s outcome] by simp_all
    have "\<not> list_all is_js_whitespace v \<longrightarrow>
         fetch_count (chat_run (chat_resolve i outcome s) [Type v, Submit]) =
           Suc (fetch_count (chat_resolve i outcome s))"
      using en by (simp add: chat_run_def chat_submit_nonempty trim_empty_iff [symmetric])
    with en show "\<not> chatInput_disabled (chat_resolve i outcome s) \<and>
      \<not> chatSubmitButton_disabled (chat_resolve i outcome s) \<and>
      (\<not> list_all is_js_whitespace v \<longrightarrow>
         fetch_count (chat_run (chat_resolve i outcome s) [Type v, Submit]) =
           Suc (fetch_count (chat_resolve i outcome s)))"
      by blast
  qed
  have idle: "in_flight (chat_run (chat_init d) evs) \<noteq> [] \<longrightarrow>
      in_flight (chat_resolve 0 outcome (chat_run (chat_init d) evs)) = []"
  proof
    assume N: "in_flight (chat_run (chat_init d) evs) \<noteq> []"
    have "form_locked (chat_run (chat_init d) evs)"
      by (rule form_locked_run [OF form_locked_init])
    with N have "length (in_flight (chat_run (chat_init d) evs)) = 1"
      by (auto simp: form_locked_def)
    then show "in_flight (chat_resolve 0 outcome (chat_run (chat_init d) evs)) = []"
      by (simp add: chat_resolve_in_flight)
  qed
  have lookup: "\<not> list_all is_js_whitespace v \<longrightarrow>
      lookup_fetch_count (lookup_run h (lookup_resolve h j result u) [Type v, Submit]) =
        Suc (lookup_fetch_count (lookup_resolve h j result u))"
    by (simp add: lookup_run_def lookup_submit_nonempty trim_empty_iff [symmetric])
  from chat idle lookup show ?thesis by blast
qed

theorem every_outcome_leaves_component_ready_witness:
  "0 < length (in_flight (chat_run (chat_init sample_dom) [Type ''hi'', Submit])) \<and>
   \<not> list_all is_js_whitespace ''again'' \<and>
   in_flight (chat_run (chat_init sample_dom) [Type ''hi'', Submit]) \<noteq> [] \<and>
   \<not> chatInput_disabled (chat_resolve 0 NetworkFailure (chat_run (chat_init sample_dom) [Type ''hi'', Submit])) \<and>
   fetch_count (chat_run (chat_resolve 0 NetworkFailure (chat_run (chat_init sample_dom) [Type ''hi'', Submit]))
      [Type ''again'', Submit]) = 2 \<and>
   in_flight (chat_resolve 0 NetworkFailure (chat_run (chat_init sample_dom) [Type ''hi'', Submit])) = [] \<and>
   lookup_fetch_count
     (lookup_run sample_host
        (lookup_resolve sample_host 0 (Response 200 (Json empty_payload))
           (lookup_submit (lookup_init ''Ann'' ''none'' [])))
        [Type ''again'', Submit]) = 2"
  using every_outcome_leaves_component_ready
    [of 0 "chat_run (chat_init sample_dom) [Type ''hi'', Submit]" NetworkFailure "''again''"
        sample_dom "[Type ''hi'', Submit]" sample_host 0 "Response 200 (Json empty_payload)"
        "lookup_submit (lookup_init ''Ann'' ''none'' [])"]
  by (simp add: sample_run chat_submit_nonempty trim_hi is_js_whitespace_def)
     (simp add: chat_init_def lookup_init_def lookup_submit_def trim_def is_js_whitespace_def Let_def)

subsection \<open>Failure responses that carry a detail\<close>

lemma chat_settle_error_rendered:
  assumes "chat_try outcome = Inl err" and "assistantMessageElement r < length (chatWindow s)"
  shows "messageParagraph (chatWindow (chat_settle r outcome s) ! assistantMessageElement r) =
           InnerHTML chat_error_html"
    and "console (chat_settle r outcome s) = console s @ [(''Failed to fetch from agent:'', err)]"
  using assms
  by (simp_all add: chat_settle_def set_paragraph_def setFormDisabled_def)

text \<open>
  Claim C2 as stated fails for the chat widget: on HTTP 404 with the body
  \<open>{"detail": "Not found"}\<close> the placeholder paragraph shows the fixed apology, not the
  detail.
\<close>

theorem chat_agent_shows_apology_not_detail:
  "messageParagraph
     (chatWindow
        (chat_run (chat_init sample_dom)
           [Type ''hi'', Submit,
            Resolve 0 (Response 404 (Json \<lparr>reply = Absent, detail = Val ''Not found''\<rparr>))]) ! 1) =
   InnerHTML ''<p style=\"color: #ff7b7b;\">Sorry, an error occurred. Please try again later.</p>''"
  by (simp add: chat_run_def chat_init_def sample_dom_def chat_submit_nonempty trim_hi
      chat_resolve_def chat_settle_def chat_try_def response_ok_def set_paragraph_def
      setFormDisabled_def chat_error_html_def)

text \<open>
  Claim C2, amended. For a response with a non-2xx status whose JSON body has a
  \<open>detail\<close> string, the order-status form shows that string verbatim inside its red
  inline paragraph. The chat widget shows its fixed apology for every response with
  a non-2xx status, with or without a detail; when the body is JSON, the detail (or
  \<open>Unknown error\<close> when the detail is missing, \<open>null\<close> or empty) goes into the message
  of the error written to the console.
\<close>

theorem lookup_shows_detail_chat_shows_apology:
  "\<not> response_ok st \<Longrightarrow>
     (lookup_detail data = Val d \<longrightarrow>
        resultsContainer_innerHTML (lookup_settle h (Response st (Json data)) u) =
          ''<p style=\"color: red;\">'' @ d @ ''</p>'') \<and>
     (i < length (in_flight s) \<and> assistantMessageElement (in_flight s ! i) < length (chatWindow s) \<longrightarrow>
        messageParagraph
          (chatWindow (chat_resolve i (Response st b) s) ! assistantMessageElement (in_flight s ! i)) =
          InnerHTML ''<p style=\"color: #ff7b7b;\">Sorry, an error occurred. Please try again later.</p>'' \<and>
        (b = Json p \<longrightarrow>
           console (chat_resolve i (Response st b) s) =
             console s @
               [(''Failed to fetch from agent:'',
                 Error (''API Error: '' @ show_nat st @ '' - '' @
                        (case detail p of
                           Val t \<Rightarrow> if t = [] then ''Unknown error'' else t
                         | _ \<Rightarrow> ''Unknown error'')))]))"
proof -
  assume nok: "\<not> response_ok st"
  have lk: "lookup_detail data = Val d \<longrightarrow>
        resultsContainer_innerHTML (lookup_settle h (Response st (Json data)) u) =
          ''<p style=\"color: red;\">'' @ d @ ''</p>''"
    using nok by (simp add: lookup_settle_def detail_html_def)
  have ch: "i < length (in_flight s) \<and> assistantMessageElement (in_flight s ! i) < length (chatWindow s) \<longrightarrow>
        messageParagraph
          (chatWindow (chat_resolve i (Response st b) s) ! assistantMessageElement (in_flight s ! i)) =
          InnerHTML ''<p style=\"color: #ff7b7b;\">Sorry, an error occurred. Please try again later.</p>'' \<and>
        (b = Json p \<longrightarrow>
           console (chat_resolve i (Response st b) s) =
             console s @
               [(''Failed to fetch from agent:'',
                 Error (''API Error: '' @ show_nat st @ '' - '' @
                        (case detail p of
                           Val t \<Rightarrow> if t = [] then ''Unknown error'' else t
                         | _ \<Rightarrow> ''Unknown error'')))])"
  proof
    assume A: "i < length (in_flight s) \<and> assistantMessageElement (in_flight s ! i) < length (chatWindow s)"
    obtain err where err: "chat_try (Response st b) = Inl err"
      using nok by (cases b) (simp_all add: chat_try_def)
    have J: "b = Json p \<longrightarrow> err =
        Error (''API Error: '' @ show_nat st @ '' - '' @
                        (case detail p of
                           Val t \<Rightarrow> if t = [] then ''Unknown error'' else t
                         | _ \<Rightarrow> ''Unknown error''))"
      using nok err by (cases "detail p") (auto simp: chat_try_def)
    let ?s' = "s\<lparr>in_flight := take i (in_flight s) @ drop (Suc i) (in_flight s)\<rparr>"
    have R: "chat_resolve i (Response st b) s = chat_settle (in_flight s ! i) (Response st b) ?s'"
      using A by (simp add: chat_resolve_def)
    have W: "assistantMessageElement (in_flight s ! i) < length (chatWindow ?s')"
      using A by simp
    note E = chat_settle_error_rendered [OF err W]
    have P1: "messageParagraph
          (chatWindow (chat_resolve i (Response st b) s) ! assistantMessageElement (in_flight s ! i)) =
          InnerHTML ''<p style=\"color: #ff7b7b;\">Sorry, an error occurred. Please try again later.</p>''"
      unfolding R using E(1) by (simp add: chat_error_html_def)
    have P2: "console (chat_resolve i (Response st b) s) =
             console s @ [(''Failed to fetch from agent:'', err)]"
      unfolding R using E(2) by simp
    from P1 P2 J
    show "messageParagraph
          (chatWindow (chat_resolve i (Response st b) s) ! assistantMessageElement (in_flight s ! i)) =
          InnerHTML ''<p style=\"color: #ff7b7b;\">Sorry, an error occurred. Please try again later.</p>'' \<and>
        (b = Json p \<longrightarrow>
           console (chat_resolve i (Response st b) s) =
             console s @
               [(''Failed to fetch from agent:'',
                 Error (''API Error: '' @ show_nat st @ '' - '' @
                        (case detail p of
                           Val t \<Rightarrow> if t = [] then ''Unknown error'' else t
                         | _ \<Rightarrow> ''Unknown error'')))])"
      by blast
  qed
  from lk ch show ?thesis by blast
qed

lemma show_nat_404: "show_nat 404 = ''404''"
  by code_simp

theorem lookup_shows_detail_chat_shows_apology_witness:
  "\<not> response_ok 404 \<and>
   lookup_detail (empty_payload\<lparr>lookup_detail := Val ''Not found''\<rparr>) = Val ''Not found'' \<and>
   resultsContainer_innerHTML
     (lookup_settle sample_host (Response 404 (Json (empty_payload\<lparr>lookup_detail := Val ''Not found''\<rparr>)))
        (lookup_submit (lookup_init ''Ann'' ''none'' []))) =
     ''<p style=\"color: red;\">Not found</p>'' \<and>
   0 < length (in_flight (chat_run (chat_init sample_dom) [Type ''hi'', Submit])) \<and>
   assistantMessageElement (in_flight (chat_run (chat_init sample_dom) [Type ''hi'', Submit]) ! 0)
     < length (chatWindow (chat_run (chat_init sample_dom) [Type ''hi'', Submit])) \<and>
   console
     (chat_resolve 0 (Response 404 (Json \<lparr>reply = Absent, detail = Val ''Not found''\<rparr>))
        (chat_run (chat_init sample_dom) [Type ''hi'', Submit])) =
     [(''Failed to fetch from agent:'', Error ''API Error: 404 - Not found'')]"
  using lookup_shows_detail_chat_shows_apology
    [of 404 "empty_payload\<lparr>lookup_detail := Val ''Not found''\<rparr>" "''Not found''"
        sample_host "lookup_submit (lookup_init ''Ann'' ''none'' [])"
        0 "chat_run (chat_init sample_dom) [Type ''hi'', Submit]"
        "Json \<lparr>reply = Absent, detail = Val ''Not found''\<rparr>"
        "\<lparr>reply = Absent, detail = Val ''Not found''\<rparr>"]
  by (simp add: sample_run chat_submit_nonempty trim_hi response_ok_def show_nat_404)
     (simp add: chat_init_def sample_dom_def)

subsection \<open>Two decimal places\<close>







subsection \<open>The rendered receipt\<close>





















subsection \<open>Repeated lookups\<close>

lemma lookup_settle_innerHTML_independent:
  "resultsContainer_innerHTML (lookup_settle h outcome u) =
   resultsContainer_innerHTML (lookup_settle h outcome u')"
  by (simp add: lookup_settle_def lookup_catch_def Let_def
      split: fetch_outcome.splits body.splits sum.splits)

lemma lookup_resolve_last:
  "trim (nameInput_value u) \<noteq> [] \<Longrightarrow>
     lookup_resolve h (length (lookup_in_flight u)) outcome (lookup_submit u) =
       lookup_settle h outcome
         (u\<lparr>resultsContainer_display := ''block'',
            resultsContainer_innerHTML := ''<p>Searching...</p>'',
            lookup_in_flight := lookup_in_flight u,
            lookup_fetch_count := Suc (lookup_fetch_count u)\<rparr>)"
  by (simp add: lookup_submit_nonempty lookup_resolve_def)

text \<open>
  Claim C8. A lookup is the submit of a non-blank query followed by the settling of
  the request it issued. Two lookups of the same query that receive the same
  outcome on the same host, started from any two states of the page (so also one
  after the other), request the same URL and leave the results container with the
  same markup and the same display setting. Nothing is cached: each of the two
  issues its own call.
\<close>

theorem identical_lookups_render_identically:
  "trim (nameInput_value u) \<noteq> [] \<Longrightarrow> nameInput_value u' = nameInput_value u \<Longrightarrow>
     resultsContainer_innerHTML
        (lookup_resolve h (length (lookup_in_flight u)) outcome (lookup_submit u)) =
     resultsContainer_innerHTML
        (lookup_resolve h (length (lookup_in_flight u')) outcome (lookup_submit u')) \<and>
     resultsContainer_display
        (lookup_resolve h (length (lookup_in_flight u)) outcome (lookup_submit u)) =
     resultsContainer_display
        (lookup_resolve h (length (lookup_in_flight u')) outcome (lookup_submit u')) \<and>
     last (lookup_in_flight (lookup_submit u)) = last (lookup_in_flight (lookup_submit u')) \<and>
     lookup_fetch_count (lookup_submit u) = Suc (lookup_fetch_count u) \<and>
     lookup_fetch_count (lookup_submit u') = Suc (lookup_fetch_count u')"
proof -
  assume ne: "trim (nameInput_value u) \<noteq> []" and same: "nameInput_value u' = nameInput_value u"
  then have ne': "trim (nameInput_value u') \<noteq> []" by simp
  have html: "resultsContainer_innerHTML
        (lookup_resolve h (length (lookup_in_flight u)) outcome (lookup_submit u)) =
     resultsContainer_innerHTML
        (lookup_resolve h (length (lookup_in_flight u')) outcome (lookup_submit u'))"
    unfolding lookup_resolve_last [OF ne] lookup_resolve_last [OF ne']
    by (rule lookup_settle_innerHTML_independent)
  have disp: "resultsContainer_display
        (lookup_resolve h (length (lookup_in_flight u)) outcome (lookup_submit u)) =
     resultsContainer_display
        (lookup_resolve h (length (lookup_in_flight u')) outcome (lookup_submit u'))"
    unfolding lookup_resolve_last [OF ne] lookup_resolve_last [OF ne'] by simp
  have url: "last (lookup_in_flight (lookup_submit u)) = last (lookup_in_flight (lookup_submit u'))"
    using ne ne' same by (simp add: lookup_submit_nonempty)
  have cnt: "lookup_fetch_count (lookup_submit u) = Suc (lookup_fetch_count u)"
      "lookup_fetch_count (lookup_submit u') = Suc (lookup_fetch_count u')"
    using ne ne' by (simp_all add: lookup_submit_nonempty)
  from html disp url cnt show ?thesis by blast
qed

lemma trim_Ann: "trim ''Ann'' = ''Ann''"
  by (simp add: trim_def is_js_whitespace_def)

theorem identical_lookups_render_identically_witness:
  "trim (nameInput_value (lookup_init ''Ann'' ''none'' [])) \<noteq> [] \<and>
   nameInput_value
     (lookup_resolve sample_host 0 (Response 200 (Json sample_order))
        (lookup_submit (lookup_init ''Ann'' ''none'' []))) =
     nameInput_value (lookup_init ''Ann'' ''none'' []) \<and>
   resultsContainer_innerHTML
     (lookup_resolve sample_host 0 (Response 200 (Json sample_order))
        (lookup_submit
           (lookup_resolve sample_host 0 (Response 200 (Json sample_order))
              (lookup_submit (lookup_init ''Ann'' ''none'' []))))) =
   resultsContainer_innerHTML
     (lookup_resolve sample_host 0 (Response 200 (Json sample_order))
        (lookup_submit (lookup_init ''Ann'' ''none'' []))) \<and>
   lookup_fetch_count
     (lookup_submit
        (lookup_resolve sample_host 0 (Response 200 (Json sample_order))
           (lookup_submit (lookup_init ''Ann'' ''none'' [])))) = 2"
proof -
  let ?u = "lookup_init ''Ann'' ''none'' []"
  let ?u' = "lookup_resolve sample_host 0 (Response 200 (Json sample_order)) (lookup_submit ?u)"
  have ne: "trim (nameInput_value ?u) \<noteq> []"
    by (simp add: lookup_init_def trim_Ann)
  have same: "nameInput_value ?u' = nameInput_value ?u"
    by (simp add: lookup_resolve_def lookup_submit_def Let_def)
  have len: "length (lookup_in_flight ?u) = 0" "length (lookup_in_flight ?u') = 0"
    using ne by (simp_all add: lookup_init_def lookup_resolve_def lookup_submit_nonempty)
  have cnt: "lookup_fetch_count ?u = 0"
    by (simp add: lookup_init_def)
  from identical_lookups_render_identically
         [OF ne same, of sample_host "Response 200 (Json sample_order)"] ne same
  show ?thesis
    unfolding len using cnt by simp
qed

end
